theory Spec2Isabelle
  imports Complex_Main "HOL-Library.Sublist"
begin

section \<open>Python values used by the Moment document\<close>

text \<open>
  A Python \<^verbatim>\<open>str\<close> is a sequence of Unicode code points, and \<^verbatim>\<open>len\<close> counts
  code points. A string is therefore modelled as a list of code points; \<open>lit\<close> embeds
  the ASCII literals of the source.
\<close>

type_synonym pystr = "nat list"

definition lit :: "string \<Rightarrow> pystr" where
  "lit s = map of_char s"

text \<open>
  \<^verbatim>\<open>frappe.throw(msg)\<close> is the user-facing exception \<open>Throw msg\<close>, with the message
  as the source writes it (the translation \<^verbatim>\<open>_\<close> is the identity); the other
  constructors are the Python and SQL errors the source can run into.
\<close>

datatype error = Throw pystr | TypeError | AttributeError | JSONDecodeError | SqlError

text \<open>
  What the source takes from the Python runtime and cannot be read off the repository
  is collected in one parameter: the Unicode tables for code points from 128 upwards
  (\<^verbatim>\<open>\w\<close> of \<^verbatim>\<open>re\<close> and \<^verbatim>\<open>str.lower\<close>), the rounding of double arithmetic, the
  printing of a double, the parser behind \<^verbatim>\<open>len(json.loads(s))\<close>, and
  \<^verbatim>\<open>isoformat\<close> of a timestamp. The model lower-cases code point by code point;
  the one rule of Python that looks at the neighbours, the final sigma, chooses between
  two code points that are not ASCII.
\<close>

record platform =
  uni_isalnum :: "nat \<Rightarrow> bool"
  uni_lower :: "nat \<Rightarrow> pystr"
  float_round :: "rat \<Rightarrow> rat"
  float_repr :: "rat \<Rightarrow> pystr"
  json_loads_len :: "pystr \<Rightarrow> error + nat"
  isoformat :: "nat \<Rightarrow> pystr"

datatype json =
    JNull
  | JBool bool
  | JInt int
  | JFloat rat
  | JStr pystr
  | JList "json list"
  | JDict "(pystr \<times> json) list"

text \<open>Python truthiness, as \<^verbatim>\<open>if x:\<close> and \<^verbatim>\<open>not x\<close> read it.\<close>

fun truthy :: "json \<Rightarrow> bool" where
  "truthy JNull = False"
| "truthy (JBool b) = b"
| "truthy (JInt n) = (n \<noteq> 0)"
| "truthy (JFloat x) = (x \<noteq> 0)"
| "truthy (JStr s) = (s \<noteq> [])"
| "truthy (JList xs) = (xs \<noteq> [])"
| "truthy (JDict kvs) = (kvs \<noteq> [])"

definition truthy_str :: "pystr option \<Rightarrow> bool" where
  "truthy_str x = (case x of None \<Rightarrow> False | Some s \<Rightarrow> s \<noteq> [])"

definition truthy_list :: "'a list option \<Rightarrow> bool" where
  "truthy_list x = (case x of None \<Rightarrow> False | Some xs \<Rightarrow> xs \<noteq> [])"

text \<open>\<^verbatim>\<open>d.get(k)\<close> on a dict: the value, or None.\<close>

definition dict_get :: "(pystr \<times> json) list \<Rightarrow> pystr \<Rightarrow> json" where
  "dict_get d k = (case map_of d k of None \<Rightarrow> JNull | Some v \<Rightarrow> v)"

text \<open>\<^verbatim>\<open>x or 0\<close> on an integer field that may be None.\<close>

definition or0 :: "int option \<Rightarrow> int" where
  "or0 x = (case x of None \<Rightarrow> 0 | Some n \<Rightarrow> (if n \<noteq> 0 then n else 0))"

subsection \<open>Lower-casing and substring search\<close>

definition lower_cp :: "platform \<Rightarrow> nat \<Rightarrow> pystr" where
  "lower_cp P c =
     (if c < 128 then (if 65 \<le> c \<and> c \<le> 90 then [c + 32] else [c])
      else uni_lower P c)"

definition py_lower :: "platform \<Rightarrow> pystr \<Rightarrow> pystr" where
  "py_lower P s = concat (map (lower_cp P) s)"

text \<open>\<^verbatim>\<open>w in s\<close> on strings is \<^term>\<open>sublist w s\<close>: \<open>w\<close> occurs as a contiguous run.\<close>

section \<open>Documents and the database\<close>

record mention_row =
  mr_user :: "pystr option"

text \<open>
  The field \<^verbatim>\<open>mentions\<close> holds rows with a \<^verbatim>\<open>user\<close> attribute when
  \<^verbatim>\<open>validate_mentions\<close> reads it, and the string \<^verbatim>\<open>json.dumps(mentions)\<close> after
  \<^verbatim>\<open>extract_mentions\<close> has written it.
\<close>

datatype mentions_field = MentionRows "mention_row list" | MentionsJson pystr

record moment =
  name :: pystr
  moment_id :: "pystr option"
  content :: "pystr option"
  author :: "pystr option"
  moment_type :: "pystr option"
  attachments :: "pystr list option"
  mentions :: "mentions_field option"
  location :: "(pystr \<times> json) list option"
  privacy :: "pystr option"
  status :: "pystr option"
  posted_date :: "nat option"
  hashtags :: "pystr option"
  visibility :: "pystr option"
  preview :: "pystr option"
  ai_analysis :: "pystr option"
  engagement_score :: "rat option"
  likes_count :: "int option"
  comments_count :: "int option"
  shares_count :: "int option"
  views_count :: "int option"
  external_platform_id :: "pystr option"

record hashtag_doc =
  hashtag :: pystr
  usage_count :: int
  first_used :: nat
  last_used :: nat

record moment_mention =
  mm_moment :: pystr
  mentioned_user :: pystr
  mention_date :: nat

record moment_like =
  ml_moment :: pystr
  ml_user :: pystr
  like_date :: nat

record moment_comment =
  mc_moment :: pystr
  mc_user :: pystr
  comment :: pystr
  comment_date :: nat

record moment_share =
  ms_moment :: pystr
  ms_user :: pystr
  share_date :: nat

record moment_notification =
  mn_user :: "pystr option"
  mn_moment :: pystr
  notification_type :: pystr
  message :: pystr
  is_read :: int
  created_date :: nat

record user_follow =
  follower :: "pystr option"
  following :: "pystr option"

record employee =
  emp_user :: "pystr option"
  department :: "pystr option"

text \<open>
  The tables the source reads and writes through \<^verbatim>\<open>frappe.db\<close> and
  \<^verbatim>\<open>frappe.get_doc\<close>, and the clock behind \<^verbatim>\<open>now()\<close>. A table is a list of rows:
  order and duplicates are kept.
\<close>

record database =
  tabUser :: "pystr list"
  tabHashtag :: "hashtag_doc list"
  tabMomentMention :: "moment_mention list"
  tabMomentLike :: "moment_like list"
  tabMomentComment :: "moment_comment list"
  tabMomentShare :: "moment_share list"
  tabMomentNotification :: "moment_notification list"
  tabMoment :: "moment list"
  tabUserFollow :: "user_follow list"
  tabEmployee :: "employee list"
  now :: nat

record state =
  self :: moment
  db :: database

section \<open>Exceptions and sequencing\<close>

text \<open>
  A method is a function from the state to an outcome and the state it leaves behind:
  what was assigned before a raise stays assigned.
\<close>

type_synonym 'a action = "state \<Rightarrow> (error + 'a) \<times> state"

definition throw :: "pystr \<Rightarrow> 'a action" where
  "throw msg s = (Inl (Throw msg), s)"

definition raise :: "error \<Rightarrow> 'a action" where
  "raise e s = (Inl e, s)"

definition skip :: "unit action" where
  "skip s = (Inr (), s)"

definition andthen :: "unit action \<Rightarrow> 'a action \<Rightarrow> 'a action" where
  "andthen f g s = (case f s of (Inl e, s') \<Rightarrow> (Inl e, s') | (Inr _, s') \<Rightarrow> g s')"

definition modify_self :: "(moment \<Rightarrow> moment) \<Rightarrow> unit action" where
  "modify_self f s = (Inr (), s\<lparr>self := f (self s)\<rparr>)"

definition modify_db :: "(database \<Rightarrow> database) \<Rightarrow> unit action" where
  "modify_db f s = (Inr (), s\<lparr>db := f (db s)\<rparr>)"

definition when_do :: "bool \<Rightarrow> unit action \<Rightarrow> unit action" where
  "when_do b f = (if b then f else skip)"

fun for_each :: "'a list \<Rightarrow> ('a \<Rightarrow> unit action) \<Rightarrow> unit action" where
  "for_each [] f = skip"
| "for_each (x # xs) f = andthen (f x) (for_each xs f)"

definition is_throw :: "(error + 'a) \<Rightarrow> bool" where
  "is_throw r = (case r of Inl (Throw _) \<Rightarrow> True | _ \<Rightarrow> False)"

section \<open>Validation\<close>

definition inappropriate_words :: "pystr list" where
  "inappropriate_words =
     [lit ''spam'', lit ''scam'', lit ''fraud'', lit ''illegal'', lit ''inappropriate'']"

definition contains_inappropriate_content :: "platform \<Rightarrow> moment \<Rightarrow> bool" where
  "contains_inappropriate_content P m =
     (if \<not> truthy_str (content m) then False
      else list_ex (\<lambda>w. sublist w (py_lower P (the (content m)))) inappropriate_words)"

definition validate_moment_data :: "unit action" where
  "validate_moment_data s =
     (if \<not> truthy_str (content (self s)) \<and> \<not> truthy_list (attachments (self s))
      then throw (lit ''Moment must have content or attachments'') s
      else if \<not> truthy_str (author (self s))
      then throw (lit ''Author is required'') s
      else if \<not> truthy_str (moment_type (self s))
      then throw (lit ''Moment type is required'') s
      else skip s)"

definition set_defaults :: "unit action" where
  "set_defaults s =
     (let m1 = self s;
          m2 = (if \<not> truthy_str (moment_type m1) then m1\<lparr>moment_type := Some (lit ''Text'')\<rparr> else m1);
          m3 = (if \<not> truthy_str (privacy m2) then m2\<lparr>privacy := Some (lit ''Public'')\<rparr> else m2);
          m4 = (if \<not> truthy_str (status m3) then m3\<lparr>status := Some (lit ''Published'')\<rparr> else m3);
          m5 = (if posted_date m4 = None
                then m4\<lparr>posted_date := Some (now (db s))\<rparr> else m4)
      in (Inr (), s\<lparr>self := m5\<rparr>))"

definition validate_content :: "platform \<Rightarrow> unit action" where
  "validate_content P s =
     (if truthy_str (content (self s)) then
        (if length (the (content (self s))) > 2000
         then throw (lit ''Content cannot exceed 2000 characters'') s
         else if contains_inappropriate_content P (self s)
         then throw (lit ''Content contains inappropriate material'') s
         else skip s)
      else skip s)"

definition db_exists_user :: "database \<Rightarrow> pystr option \<Rightarrow> bool" where
  "db_exists_user d u = (case u of None \<Rightarrow> False | Some n \<Rightarrow> n \<in> set (tabUser d))"

definition str_of :: "pystr option \<Rightarrow> pystr" where
  "str_of u = (case u of None \<Rightarrow> lit ''None'' | Some n \<Rightarrow> n)"

definition check_mention :: "mention_row \<Rightarrow> unit action" where
  "check_mention mention s =
     (if \<not> db_exists_user (db s) (mr_user mention)
      then throw (lit ''Mentioned user '' @ str_of (mr_user mention) @ lit '' does not exist'') s
      else skip s)"

definition validate_mentions :: "unit action" where
  "validate_mentions s =
     (case mentions (self s) of
        None \<Rightarrow> skip s
      | Some (MentionRows rows) \<Rightarrow> for_each rows check_mention s
      | Some (MentionsJson js) \<Rightarrow> (if js = [] then skip s else raise AttributeError s))"

definition validate_location :: "unit action" where
  "validate_location s =
     (case location (self s) of
        None \<Rightarrow> skip s
      | Some loc \<Rightarrow>
          (if loc = [] then skip s
           else if \<not> truthy (dict_get loc (lit ''latitude'')) \<or> \<not> truthy (dict_get loc (lit ''longitude''))
           then throw (lit ''Invalid location data'') s
           else skip s))"

definition validate :: "platform \<Rightarrow> unit action" where
  "validate P =
     andthen validate_moment_data
       (andthen set_defaults
         (andthen (validate_content P)
           (andthen validate_mentions validate_location)))"

section \<open>Text processing\<close>

subsection \<open>Regular-expression search and substitution\<close>

text \<open>
  \<^verbatim>\<open>re.findall\<close> and \<^verbatim>\<open>re.sub\<close> scan from left to right: at each position the
  pattern is tried; a match is consumed whole and the scan goes on behind it, otherwise
  the scan moves one code point on. A pattern is given by its matcher at the head of a
  string, which returns the matched text and what follows it. No pattern of the
  source matches the empty string, which the test on the lengths records.
\<close>

type_synonym matcher = "pystr \<Rightarrow> (pystr \<times> pystr) option"

fun re_finditer :: "matcher \<Rightarrow> pystr \<Rightarrow> pystr list" where
  "re_finditer mt [] = []"
| "re_finditer mt (c # s) =
     (case mt (c # s) of
        None \<Rightarrow> re_finditer mt s
      | Some (m, rest) \<Rightarrow>
          (if length rest < length (c # s) then m # re_finditer mt rest
           else re_finditer mt s))"

fun re_sub :: "matcher \<Rightarrow> (pystr \<Rightarrow> pystr) \<Rightarrow> pystr \<Rightarrow> pystr" where
  "re_sub mt repl [] = []"
| "re_sub mt repl (c # s) =
     (case mt (c # s) of
        None \<Rightarrow> c # re_sub mt repl s
      | Some (m, rest) \<Rightarrow>
          (if length rest < length (c # s) then repl m @ re_sub mt repl rest
           else c # re_sub mt repl s))"

text \<open>\<^verbatim>\<open>\w\<close> on a \<^verbatim>\<open>str\<close> pattern: alphanumeric or the underscore.\<close>

definition is_word :: "platform \<Rightarrow> nat \<Rightarrow> bool" where
  "is_word P c =
     (c = 95 \<or>
      (if c < 128 then (48 \<le> c \<and> c \<le> 57) \<or> (65 \<le> c \<and> c \<le> 90) \<or> (97 \<le> c \<and> c \<le> 122)
       else uni_isalnum P c))"

text \<open>
  The patterns \<^verbatim>\<open>#(\w+)\<close> and \<^verbatim>\<open>@(\w+)\<close>: the marker, then the longest run of word
  characters, which must not be empty. The group is the match without its first
  code point.
\<close>

definition tag_match :: "platform \<Rightarrow> nat \<Rightarrow> matcher" where
  "tag_match P mk s =
     (case s of
        [] \<Rightarrow> None
      | c # t \<Rightarrow>
          (if c = mk \<and> takeWhile (is_word P) t \<noteq> []
           then Some (c # takeWhile (is_word P) t, dropWhile (is_word P) t)
           else None))"

text \<open>
  The link pattern
  \<^verbatim>\<open>http[s]?://(?:[a-zA-Z]|[0-9]|[$-_@.&+]|[!*\\(\\),]|(?:%[0-9a-fA-F][0-9a-fA-F]))+\<close>.
  Every alternative but the last takes one code point, and \<^verbatim>\<open>%\<close> lies in the range
  \<^verbatim>\<open>$-_\<close> of an earlier alternative, so the repetition takes the longest run of
  code points of the four classes.
\<close>

definition url_char :: "nat \<Rightarrow> bool" where
  "url_char c =
     ((97 \<le> c \<and> c \<le> 122) \<or> (65 \<le> c \<and> c \<le> 90)
      \<or> (48 \<le> c \<and> c \<le> 57)
      \<or> (36 \<le> c \<and> c \<le> 95) \<or> c = 64 \<or> c = 46 \<or> c = 38 \<or> c = 43
      \<or> c = 33 \<or> c = 42 \<or> c = 92 \<or> c = 40 \<or> c = 41 \<or> c = 44)"

definition url_scheme_len :: "pystr \<Rightarrow> nat option" where
  "url_scheme_len s =
     (if prefix (lit ''https://'') s then Some 8
      else if prefix (lit ''http://'') s then Some 7
      else None)"

definition url_match :: matcher where
  "url_match s =
     (case url_scheme_len s of
        None \<Rightarrow> None
      | Some k \<Rightarrow>
          (if takeWhile url_char (drop k s) = [] then None
           else Some (take k s @ takeWhile url_char (drop k s), dropWhile url_char (drop k s))))"

text \<open>\<^verbatim>\<open>s.replace(old, new)\<close> for a non-empty \<open>old\<close>, which is all the source uses.\<close>

definition literal_match :: "pystr \<Rightarrow> matcher" where
  "literal_match old s =
     (if old \<noteq> [] \<and> prefix old s then Some (old, drop (length old) s) else None)"

definition str_replace :: "pystr \<Rightarrow> pystr \<Rightarrow> pystr \<Rightarrow> pystr" where
  "str_replace old new s = re_sub (literal_match old) (\<lambda>_. new) s"

subsection \<open>The four rewriting passes\<close>

definition dq :: pystr where
  "dq = [34]"

definition emoji_map :: "(pystr \<times> pystr) list" where
  "emoji_map =
     [(lit '':smile:'', [128522]),
      (lit '':heart:'', [10084, 65039]),
      (lit '':thumbs_up:'', [128077]),
      (lit '':thumbs_down:'', [128078]),
      (lit '':laugh:'', [128514]),
      (lit '':angry:'', [128544]),
      (lit '':sad:'', [128546]),
      (lit '':love:'', [128525])]"

definition process_emojis :: "pystr \<Rightarrow> pystr" where
  "process_emojis c = fold (\<lambda>(code, emoji) acc. str_replace code emoji acc) emoji_map c"

definition link_repl :: "pystr \<Rightarrow> pystr" where
  "link_repl m =
     lit ''<a href='' @ dq @ m @ dq @ lit '' target='' @ dq @ lit ''_blank'' @ dq @ lit ''>''
       @ m @ lit ''</a>''"

definition process_links :: "pystr \<Rightarrow> pystr" where
  "process_links c = re_sub url_match link_repl c"

definition hashtag_repl :: "pystr \<Rightarrow> pystr" where
  "hashtag_repl m =
     lit ''<a href='' @ dq @ lit ''/hashtag/'' @ tl m @ dq @ lit '' class='' @ dq
       @ lit ''hashtag'' @ dq @ lit ''>#'' @ tl m @ lit ''</a>''"

definition process_hashtags :: "platform \<Rightarrow> pystr \<Rightarrow> pystr" where
  "process_hashtags P c = re_sub (tag_match P 35) hashtag_repl c"

definition mention_repl :: "pystr \<Rightarrow> pystr" where
  "mention_repl m =
     lit ''<a href='' @ dq @ lit ''/user/'' @ tl m @ dq @ lit '' class='' @ dq
       @ lit ''mention'' @ dq @ lit ''>@'' @ tl m @ lit ''</a>''"

definition process_mentions :: "platform \<Rightarrow> pystr \<Rightarrow> pystr" where
  "process_mentions P c = re_sub (tag_match P 64) mention_repl c"

definition process_text :: "platform \<Rightarrow> pystr \<Rightarrow> pystr" where
  "process_text P c = process_mentions P (process_hashtags P (process_links (process_emojis c)))"

definition process_content :: "platform \<Rightarrow> unit action" where
  "process_content P s =
     (if truthy_str (content (self s))
      then modify_self (\<lambda>m. m\<lparr>content := Some (process_text P (the (content m)))\<rparr>) s
      else skip s)"

section \<open>\<^verbatim>\<open>json.dumps\<close>\<close>

fun show_nat :: "nat \<Rightarrow> pystr" where
  "show_nat n = (if n < 10 then [48 + n] else show_nat (n div 10) @ [48 + n mod 10])"

definition show_int :: "int \<Rightarrow> pystr" where
  "show_int i = (if i < 0 then 45 # show_nat (nat (- i)) else show_nat (nat i))"

definition hex_digit :: "nat \<Rightarrow> nat" where
  "hex_digit d = (if d < 10 then 48 + d else 87 + d)"

definition u_escape :: "nat \<Rightarrow> pystr" where
  "u_escape n =
     [92, 117, hex_digit (n div 4096 mod 16), hex_digit (n div 256 mod 16),
      hex_digit (n div 16 mod 16), hex_digit (n mod 16)]"

text \<open>The default \<^verbatim>\<open>ensure_ascii=True\<close>: all but the printable ASCII range is escaped.\<close>

definition json_escape_cp :: "nat \<Rightarrow> pystr" where
  "json_escape_cp c =
     (if c = 92 then [92, 92]
      else if c = 34 then [92, 34]
      else if c = 8 then [92, 98]
      else if c = 12 then [92, 102]
      else if c = 10 then [92, 110]
      else if c = 13 then [92, 114]
      else if c = 9 then [92, 116]
      else if 32 \<le> c \<and> c \<le> 126 then [c]
      else if c < 65536 then u_escape c
      else u_escape (55296 + ((c - 65536) div 1024) mod 1024)
             @ u_escape (56320 + (c - 65536) mod 1024))"

definition json_quote :: "pystr \<Rightarrow> pystr" where
  "json_quote s = dq @ concat (map json_escape_cp s) @ dq"

fun join :: "pystr \<Rightarrow> pystr list \<Rightarrow> pystr" where
  "join sep [] = []"
| "join sep [x] = x"
| "join sep (x # y # xs) = x @ sep @ join sep (y # xs)"

fun json_dumps :: "platform \<Rightarrow> json \<Rightarrow> pystr" where
  "json_dumps P JNull = lit ''null''"
| "json_dumps P (JBool b) = (if b then lit ''true'' else lit ''false'')"
| "json_dumps P (JInt i) = show_int i"
| "json_dumps P (JFloat x) = float_repr P x"
| "json_dumps P (JStr s) = json_quote s"
| "json_dumps P (JList xs) = lit ''['' @ join (lit '', '') (map (json_dumps P) xs) @ lit '']''"
| "json_dumps P (JDict kvs) =
     lit ''{'' @ join (lit '', '')
        (map (\<lambda>kv. json_quote (fst kv) @ lit '': '' @ json_dumps P (snd kv)) kvs) @ lit ''}''"

section \<open>Before saving\<close>

fun update_first :: "('a \<Rightarrow> bool) \<Rightarrow> ('a \<Rightarrow> 'a) \<Rightarrow> 'a list \<Rightarrow> 'a list" where
  "update_first p f [] = []"
| "update_first p f (x # xs) = (if p x then f x # xs else x # update_first p f xs)"

text \<open>
  \<^verbatim>\<open>doc.insert()\<close> appends a row to the table of the document type; a Hashtag
  document is named by its hashtag.
\<close>

definition create_hashtag_record :: "pystr \<Rightarrow> unit action" where
  "create_hashtag_record h s =
     (let d = db s in
      if \<not> list_ex (\<lambda>r. hashtag r = h) (tabHashtag d)
      then (Inr (), s\<lparr>db := d\<lparr>tabHashtag := tabHashtag d @
              [\<lparr>hashtag = h, usage_count = 1, first_used = now d, last_used = now d\<rparr>]\<rparr>\<rparr>)
      else (Inr (), s\<lparr>db := d\<lparr>tabHashtag :=
              update_first (\<lambda>r. hashtag r = h)
                (\<lambda>r. r\<lparr>usage_count := usage_count r + 1, last_used := now d\<rparr>) (tabHashtag d)\<rparr>\<rparr>))"

definition create_mention_record :: "pystr \<Rightarrow> unit action" where
  "create_mention_record mention s =
     (let d = db s in
      (Inr (), s\<lparr>db := d\<lparr>tabMomentMention := tabMomentMention d @
         [\<lparr>mm_moment = name (self s), mentioned_user = mention, mention_date = now d\<rparr>]\<rparr>\<rparr>))"

definition extract_hashtags :: "platform \<Rightarrow> unit action" where
  "extract_hashtags P s =
     (if truthy_str (content (self s)) then
        (let hs = map tl (re_finditer (tag_match P 35) (the (content (self s)))) in
         andthen (modify_self (\<lambda>m. m\<lparr>hashtags := Some (json_dumps P (JList (map JStr hs)))\<rparr>))
           (for_each hs create_hashtag_record) s)
      else skip s)"

definition extract_mentions :: "platform \<Rightarrow> unit action" where
  "extract_mentions P s =
     (if truthy_str (content (self s)) then
        (let ms = map tl (re_finditer (tag_match P 64) (the (content (self s)))) in
         andthen (modify_self (\<lambda>m. m\<lparr>mentions :=
                     Some (MentionsJson (json_dumps P (JList (map JStr ms))))\<rparr>))
           (for_each ms create_mention_record) s)
      else skip s)"

definition set_privacy_settings :: "unit action" where
  "set_privacy_settings s =
     modify_self (\<lambda>m.
       if privacy m = Some (lit ''Private'') then m\<lparr>visibility := Some (lit ''Author Only'')\<rparr>
       else if privacy m = Some (lit ''Friends'') then m\<lparr>visibility := Some (lit ''Friends Only'')\<rparr>
       else if privacy m = Some (lit ''Department'') then m\<lparr>visibility := Some (lit ''Department Only'')\<rparr>
       else m\<lparr>visibility := Some (lit ''Public'')\<rparr>) s"

definition hashtag_count :: "platform \<Rightarrow> moment \<Rightarrow> error + nat" where
  "hashtag_count P m =
     (if truthy_str (hashtags m) then json_loads_len P (the (hashtags m)) else Inr 0)"

definition mention_count :: "platform \<Rightarrow> moment \<Rightarrow> error + nat" where
  "mention_count P m =
     (case mentions m of
        None \<Rightarrow> Inr 0
      | Some (MentionRows rows) \<Rightarrow> (if rows = [] then Inr 0 else Inl TypeError)
      | Some (MentionsJson js) \<Rightarrow> (if js = [] then Inr 0 else json_loads_len P js))"

definition generate_preview :: "platform \<Rightarrow> unit action" where
  "generate_preview P s =
     (let m = self s in
      case content m of
        None \<Rightarrow> raise TypeError s
      | Some c \<Rightarrow>
          (case hashtag_count P m of
             Inl e \<Rightarrow> raise e s
           | Inr hc \<Rightarrow>
               (case mention_count P m of
                  Inl e \<Rightarrow> raise e s
                | Inr mc \<Rightarrow>
                    modify_self (\<lambda>m. m\<lparr>preview := Some (json_dumps P (JDict
                      [(lit ''content_preview'',
                          JStr (if length c > 100 then take 100 c @ lit ''...'' else c)),
                       (lit ''attachment_count'',
                          JInt (if truthy_list (attachments m)
                                then int (length (the (attachments m))) else 0)),
                       (lit ''hashtag_count'', JInt (int hc)),
                       (lit ''mention_count'', JInt (int mc)),
                       (lit ''location'',
                          (if truthy_list (location m)
                           then dict_get (the (location m)) (lit ''name'') else JNull))]))\<rparr>) s)))"

definition before_save :: "platform \<Rightarrow> unit action" where
  "before_save P =
     andthen (process_content P)
       (andthen (extract_hashtags P)
         (andthen (extract_mentions P)
           (andthen set_privacy_settings (generate_preview P))))"

section \<open>Content analysis\<close>

text \<open>
  \<^verbatim>\<open>self.save()\<close> writes the document to its table: the row of the same name is
  replaced, or the document is appended. The hooks that the framework runs around a
  save are methods of their own here and are not run again inside a method that saves.
\<close>

fun upsert :: "moment \<Rightarrow> moment list \<Rightarrow> moment list" where
  "upsert m [] = [m]"
| "upsert m (r # rs) = (if name r = name m then m # rs else r # upsert m rs)"

definition save :: "unit action" where
  "save s = (Inr (), s\<lparr>db := (db s)\<lparr>tabMoment := upsert (self s) (tabMoment (db s))\<rparr>\<rparr>)"

definition positive_words :: "pystr list" where
  "positive_words =
     [lit ''happy'', lit ''great'', lit ''awesome'', lit ''amazing'', lit ''love'',
      lit ''excellent'', lit ''wonderful'']"

definition negative_words :: "pystr list" where
  "negative_words =
     [lit ''sad'', lit ''bad'', lit ''terrible'', lit ''awful'', lit ''hate'',
      lit ''disappointed'', lit ''angry'']"

definition analyze_sentiment :: "platform \<Rightarrow> moment \<Rightarrow> pystr" where
  "analyze_sentiment P m =
     (if \<not> truthy_str (content m) then lit ''neutral''
      else
        (let content_lower = py_lower P (the (content m));
             positive_count = length (filter (\<lambda>w. sublist w content_lower) positive_words);
             negative_count = length (filter (\<lambda>w. sublist w content_lower) negative_words)
         in if positive_count > negative_count then lit ''positive''
            else if negative_count > positive_count then lit ''negative''
            else lit ''neutral''))"






section \<open>Engagement\<close>




section \<open>Whitelisted methods\<close>

type_synonym payload = "(pystr \<times> json) list"

definition json_of_count :: "int option \<Rightarrow> json" where
  "json_of_count x = (case x of None \<Rightarrow> JNull | Some n \<Rightarrow> JInt n)"

definition notify_author :: "pystr \<Rightarrow> pystr \<Rightarrow> unit action" where
  "notify_author ty msg s =
     modify_db (\<lambda>d. d\<lparr>tabMomentNotification := tabMomentNotification d @
       [\<lparr>mn_user = author (self s), mn_moment = name (self s), notification_type = ty,
         message = msg, is_read = 0, created_date = now d\<rparr>]\<rparr>) s"

definition like_exists :: "state \<Rightarrow> pystr \<Rightarrow> bool" where
  "like_exists s user =
     list_ex (\<lambda>l. ml_moment l = name (self s) \<and> ml_user l = user) (tabMomentLike (db s))"

definition like_moment :: "pystr \<Rightarrow> payload action" where
  "like_moment user s =
     (if like_exists s user
      then throw (lit ''You have already liked this moment'') s
      else
        andthen (modify_db (\<lambda>d. d\<lparr>tabMomentLike := tabMomentLike d @
                   [\<lparr>ml_moment = name (self s), ml_user = user, like_date = now d\<rparr>]\<rparr>))
         (andthen (modify_self (\<lambda>m. m\<lparr>likes_count := Some (or0 (likes_count m) + 1)\<rparr>))
           (andthen save
             (andthen (when_do (Some user \<noteq> author (self s))
                         (notify_author (lit ''Like'') (user @ lit '' liked your moment'')))
               (\<lambda>s'. (Inr [(lit ''status'', JStr (lit ''success'')),
                            (lit ''likes_count'', json_of_count (likes_count (self s')))], s'))))) s)"


definition add_comment :: "pystr \<Rightarrow> pystr option \<Rightarrow> payload action" where
  "add_comment user comment_content s =
     (if \<not> truthy_str comment_content
      then throw (lit ''Comment content is required'') s
      else
        andthen (modify_db (\<lambda>d. d\<lparr>tabMomentComment := tabMomentComment d @
                   [\<lparr>mc_moment = name (self s), mc_user = user,
                     comment = the comment_content, comment_date = now d\<rparr>]\<rparr>))
         (andthen (modify_self (\<lambda>m. m\<lparr>comments_count := Some (or0 (comments_count m) + 1)\<rparr>))
           (andthen save
             (andthen (when_do (Some user \<noteq> author (self s))
                         (notify_author (lit ''Comment'') (user @ lit '' commented on your moment'')))
               (\<lambda>s'. (Inr [(lit ''status'', JStr (lit ''success'')),
                            (lit ''comments_count'', json_of_count (comments_count (self s')))], s'))))) s)"


section \<open>The feed\<close>

record feed_row =
  fr_name :: pystr
  fr_moment_id :: "pystr option"
  fr_content :: "pystr option"
  fr_author :: "pystr option"
  fr_posted_date :: "nat option"
  fr_moment_type :: "pystr option"
  fr_privacy :: "pystr option"
  fr_likes_count :: "int option"
  fr_comments_count :: "int option"
  fr_shares_count :: "int option"
  fr_location :: "(pystr \<times> json) list option"
  fr_attachments :: "pystr list option"
  fr_hashtags :: "pystr option"
  fr_mentions :: "mentions_field option"
  fr_preview :: "pystr option"

definition select_columns :: "moment \<Rightarrow> feed_row" where
  "select_columns m =
     \<lparr>fr_name = name m, fr_moment_id = moment_id m, fr_content = content m,
      fr_author = author m, fr_posted_date = posted_date m, fr_moment_type = moment_type m,
      fr_privacy = privacy m, fr_likes_count = likes_count m,
      fr_comments_count = comments_count m, fr_shares_count = shares_count m,
      fr_location = location m, fr_attachments = attachments m, fr_hashtags = hashtags m,
      fr_mentions = mentions m, fr_preview = preview m\<rparr>"

text \<open>
  The \<^verbatim>\<open>WHERE\<close> clause. A comparison with \<^verbatim>\<open>NULL\<close> is not true, so a row without
  an author is in no \<^verbatim>\<open>IN\<close> list, and a requester without a department (\<open>dept = None\<close>)
  sees no department moment. Strings are compared code point by code point.
\<close>

definition feed_where :: "database \<Rightarrow> pystr \<Rightarrow> pystr option \<Rightarrow> moment \<Rightarrow> bool" where
  "feed_where d user dept m =
     (privacy m = Some (lit ''Public'')
      \<or> (privacy m = Some (lit ''Friends'') \<and> author m \<noteq> None
          \<and> list_ex (\<lambda>f. follower f = Some user \<and> following f = author m) (tabUserFollow d))
      \<or> (privacy m = Some (lit ''Department'') \<and> author m \<noteq> None \<and> dept \<noteq> None
          \<and> list_ex (\<lambda>e. department e = dept \<and> emp_user e = author m) (tabEmployee d)))"

text \<open>
  \<^verbatim>\<open>ORDER BY m.posted_date DESC\<close>: rows without a date come last; the order among
  equal dates, which SQL leaves open, is the one of the sort used here.
\<close>

definition date_key :: "moment \<Rightarrow> nat" where
  "date_key m = (case posted_date m of None \<Rightarrow> 0 | Some t \<Rightarrow> Suc t)"

definition feed_rows :: "database \<Rightarrow> pystr \<Rightarrow> pystr option \<Rightarrow> nat \<Rightarrow> nat \<Rightarrow> feed_row list" where
  "feed_rows d user dept limit offset =
     map select_columns
       (take limit (drop offset (rev (sort_key date_key (filter (feed_where d user dept) (tabMoment d))))))"

text \<open>
  The department of the requester is a scalar subquery: no row gives \<^verbatim>\<open>NULL\<close>, more
  than one row is an SQL error.
\<close>

definition get_moment_feed :: "pystr \<Rightarrow> nat \<Rightarrow> nat \<Rightarrow> feed_row list action" where
  "get_moment_feed user limit offset s =
     (case map department (filter (\<lambda>e. emp_user e = Some user) (tabEmployee (db s))) of
        [] \<Rightarrow> (Inr (feed_rows (db s) user None limit offset), s)
      | [dept] \<Rightarrow> (Inr (feed_rows (db s) user dept limit offset), s)
      | _ \<Rightarrow> raise SqlError s)"

section \<open>The specification's list of validation failures\<close>

text \<open>
  The five failures the specification names, in its words: missing content (content
  empty and no attachments), missing author, a mention of a user that does not exist,
  content longer than 2000 characters, content with a disallowed keyword.
\<close>

definition listed_failure :: "platform \<Rightarrow> state \<Rightarrow> bool" where
  "listed_failure P s =
     ((\<not> truthy_str (content (self s)) \<and> \<not> truthy_list (attachments (self s)))
      \<or> \<not> truthy_str (author (self s))
      \<or> (case mentions (self s) of
            Some (MentionRows rows) \<Rightarrow> list_ex (\<lambda>r. \<not> db_exists_user (db s) (mr_user r)) rows
          | _ \<Rightarrow> False)
      \<or> (case content (self s) of Some c \<Rightarrow> length c > 2000 | None \<Rightarrow> False)
      \<or> (case content (self s) of
            Some c \<Rightarrow> list_ex (\<lambda>w. sublist w (py_lower P c)) inappropriate_words
          | None \<Rightarrow> False))"

section \<open>The specification's reading of the sentiment classifier\<close>

text \<open>
  The specification counts the listed words that occur as words of the lower-cased
  content. The words of a string are its longest runs of word characters.
\<close>

fun word_runs :: "platform \<Rightarrow> pystr \<Rightarrow> pystr \<Rightarrow> pystr list" where
  "word_runs P cur [] = (if cur = [] then [] else [cur])"
| "word_runs P cur (c # s) =
     (if is_word P c then word_runs P (cur @ [c]) s
      else if cur = [] then word_runs P [] s
      else cur # word_runs P [] s)"

definition words_of :: "platform \<Rightarrow> pystr \<Rightarrow> pystr list" where
  "words_of P s = word_runs P [] s"

definition sentiment_by_words :: "platform \<Rightarrow> moment \<Rightarrow> pystr" where
  "sentiment_by_words P m =
     (if \<not> truthy_str (content m) then lit ''neutral''
      else
        (let ws = words_of P (py_lower P (the (content m)));
             positive_count = length (filter (\<lambda>w. w \<in> set ws) positive_words);
             negative_count = length (filter (\<lambda>w. w \<in> set ws) negative_words)
         in if positive_count > negative_count then lit ''positive''
            else if negative_count > positive_count then lit ''negative''
            else lit ''neutral''))"

section \<open>Concrete documents\<close>

text \<open>
  A platform that knows ASCII only and computes exactly, an empty database, an unfilled
  document and a few documents made from it: the inputs on which the model is evaluated
  below.
\<close>

definition test_platform :: platform where
  "test_platform =
     \<lparr>uni_isalnum = (\<lambda>c. False), uni_lower = (\<lambda>c. [c]), float_round = (\<lambda>x. x),
      float_repr = (\<lambda>x. if x = 1 then lit ''1.0'' else lit ''0.0''),
      json_loads_len = (\<lambda>js. Inr (length (filter (\<lambda>c. c = 34) js) div 2)),
      isoformat = show_nat\<rparr>"

definition blank_moment :: moment where
  "blank_moment =
     \<lparr>name = lit ''MOM-1'', moment_id = None, content = None, author = None,
      moment_type = None, attachments = None, mentions = None, location = None,
      privacy = None, status = None, posted_date = None, hashtags = None,
      visibility = None, preview = None, ai_analysis = None, engagement_score = None,
      likes_count = None, comments_count = None, shares_count = None, views_count = None,
      external_platform_id = None\<rparr>"

definition empty_db :: database where
  "empty_db =
     \<lparr>tabUser = [], tabHashtag = [], tabMomentMention = [], tabMomentLike = [],
      tabMomentComment = [], tabMomentShare = [], tabMomentNotification = [],
      tabMoment = [], tabUserFollow = [], tabEmployee = [], now = 0\<rparr>"

definition bob :: pystr where
  "bob = lit ''bob''"

definition ann :: pystr where
  "ann = lit ''ann''"

definition plain_state :: state where
  "plain_state =
     \<lparr>self = blank_moment\<lparr>content := Some (lit ''hi''), author := Some (lit ''ann''),
        moment_type := Some (lit ''Text'')\<rparr>,
      db = empty_db\<rparr>"

definition located_state :: state where
  "located_state =
     \<lparr>self = blank_moment\<lparr>content := Some (lit ''hi''), author := Some (lit ''ann''),
        moment_type := Some (lit ''Text''),
        location := Some [(lit ''name'', JStr (lit ''HQ''))]\<rparr>,
      db = empty_db\<rparr>"

definition liked_state :: state where
  "liked_state =
     \<lparr>self = blank_moment\<lparr>content := Some (lit ''hi''), author := Some (lit ''ann''),
        moment_type := Some (lit ''Text''), likes_count := Some 1\<rparr>,
      db = empty_db\<lparr>tabMomentLike := [\<lparr>ml_moment = lit ''MOM-1'', ml_user = bob, like_date = 0\<rparr>]\<rparr>\<rparr>"


definition feed_state :: state where
  "feed_state =
     \<lparr>self = blank_moment,
      db = empty_db\<lparr>tabMoment :=
        [blank_moment\<lparr>name := lit ''MOM-2'', author := Some ann, privacy := Some (lit ''Private''),
                       posted_date := Some 5\<rparr>,
         blank_moment\<lparr>name := lit ''MOM-3'', author := Some ann, privacy := Some (lit ''Public''),
                       posted_date := Some 7\<rparr>]\<rparr>\<rparr>"

definition badge_moment :: moment where
  "badge_moment = blank_moment\<lparr>content := Some (lit ''badge'')\<rparr>"

definition tagged_state :: state where
  "tagged_state =
     \<lparr>self = blank_moment\<lparr>content := Some (lit ''#a''), author := Some (lit ''ann''),
        moment_type := Some (lit ''Text'')\<rparr>,
      db = empty_db\<rparr>"

section \<open>Properties of validation\<close>

lemma for_each_check_ok:
  "list_all (\<lambda>r. db_exists_user (db s) (mr_user r)) rows \<Longrightarrow> for_each rows check_mention s = (Inr (), s)"
  by (induction rows) (auto simp: skip_def andthen_def check_mention_def)

lemma for_each_check_bad:
  "\<not> list_all (\<lambda>r. db_exists_user (db s) (mr_user r)) rows \<Longrightarrow>
   is_throw (fst (for_each rows check_mention s)) \<and> snd (for_each rows check_mention s) = s"
  by (induction rows) (auto simp: skip_def andthen_def check_mention_def throw_def is_throw_def)

lemma set_defaults_frame:
  "\<exists>s'. set_defaults s = (Inr (), s') \<and> db s' = db s \<and> content (self s') = content (self s)
     \<and> mentions (self s') = mentions (self s) \<and> location (self s') = location (self s)
     \<and> attachments (self s') = attachments (self s) \<and> author (self s') = author (self s)"
  by (simp add: set_defaults_def Let_def)

lemma validate_mentions_cases:
  assumes "\<forall>js. mentions (self s) \<noteq> Some (MentionsJson js)"
  shows "validate_mentions s = (Inr (), s) \<and>
           \<not> (case mentions (self s) of
            Some (MentionRows rows) \<Rightarrow> list_ex (\<lambda>r. \<not> db_exists_user (db s) (mr_user r)) rows
          | _ \<Rightarrow> False)
         \<or> is_throw (fst (validate_mentions s)) \<and>
           (case mentions (self s) of
            Some (MentionRows rows) \<Rightarrow> list_ex (\<lambda>r. \<not> db_exists_user (db s) (mr_user r)) rows
          | _ \<Rightarrow> False)"
proof (cases "mentions (self s)")
  case None
  then show ?thesis by (simp add: validate_mentions_def skip_def)
next
  case (Some mf)
  with assms obtain rows where r: "mentions (self s) = Some (MentionRows rows)"
    by (cases mf) auto
  show ?thesis
  proof (cases "list_all (\<lambda>r. db_exists_user (db s) (mr_user r)) rows")
    case True
    with r for_each_check_ok[of s rows] show ?thesis
      by (auto simp: validate_mentions_def list_all_iff list_ex_iff)
  next
    case False
    with r for_each_check_bad[of s rows] show ?thesis
      by (auto simp: validate_mentions_def list_all_iff list_ex_iff)
  qed
qed

lemma validate_location_cases:
  "validate_location s = (Inr (), s) \<and> 
     \<not> (case location (self s) of None \<Rightarrow> False
       | Some loc \<Rightarrow> loc \<noteq> [] \<and> (\<not> truthy (dict_get loc (lit ''latitude'')) \<or> \<not> truthy (dict_get loc (lit ''longitude''))))
   \<or> is_throw (fst (validate_location s)) \<and>
     (case location (self s) of None \<Rightarrow> False
       | Some loc \<Rightarrow> loc \<noteq> [] \<and> (\<not> truthy (dict_get loc (lit ''latitude'')) \<or> \<not> truthy (dict_get loc (lit ''longitude''))))"
  by (auto simp: validate_location_def skip_def throw_def is_throw_def split: option.splits)

lemma validate_content_cases:
  "validate_content P s = (Inr (), s) \<and>
     \<not> (case content (self s) of Some c \<Rightarrow> length c > 2000 | None \<Rightarrow> False) \<and>
     \<not> (case content (self s) of
            Some c \<Rightarrow> list_ex (\<lambda>w. sublist w (py_lower P c)) inappropriate_words
          | None \<Rightarrow> False)
   \<or> is_throw (fst (validate_content P s)) \<and>
     ((case content (self s) of Some c \<Rightarrow> length c > 2000 | None \<Rightarrow> False) \<or>
     (case content (self s) of
            Some c \<Rightarrow> list_ex (\<lambda>w. sublist w (py_lower P c)) inappropriate_words
          | None \<Rightarrow> False))"
  apply (cases "content (self s)")
   apply (simp add: validate_content_def truthy_str_def skip_def)
  subgoal for c
    apply (cases "c = []")
     apply (simp add: validate_content_def truthy_str_def skip_def py_lower_def inappropriate_words_def lit_def)
    apply (simp add: validate_content_def truthy_str_def skip_def throw_def is_throw_def contains_inappropriate_content_def)
    done
  done

lemma andthen_ok: "f s = (Inr (), s') \<Longrightarrow> andthen f g s = g s'"
  by (simp add: andthen_def)

lemma andthen_throw: "is_throw (fst (f s)) \<Longrightarrow> is_throw (fst (andthen f g s))"
  by (cases "f s") (auto simp: andthen_def is_throw_def split: sum.splits error.splits)

text \<open>
  Claim C1, as amended. For a document whose \<^verbatim>\<open>mentions\<close> field is unset or holds
  mention rows, \<^verbatim>\<open>validate\<close> raises a user-facing exception exactly when one of the
  five listed failures holds, or the moment type is missing, or a location is given
  without a true latitude or longitude; when it does not raise one, it succeeds.
\<close>

theorem validate_raises_iff:
  assumes "\<forall>js. mentions (self s) \<noteq> Some (MentionsJson js)"
  shows "(is_throw (fst (validate P s)) \<longleftrightarrow>
            listed_failure P s
          \<or> \<not> truthy_str (moment_type (self s))
          \<or> (case location (self s) of None \<Rightarrow> False
             | Some loc \<Rightarrow> loc \<noteq> [] \<and>
                 (\<not> truthy (dict_get loc (lit ''latitude'')) \<or> \<not> truthy (dict_get loc (lit ''longitude'')))))
       \<and> (\<not> is_throw (fst (validate P s)) \<longrightarrow> fst (validate P s) = Inr ())"
proof (cases "fst (validate_moment_data s) = Inr ()")
  case False
  then show ?thesis
    by (auto simp: validate_def andthen_def validate_moment_data_def throw_def skip_def
        is_throw_def listed_failure_def split: if_splits)
next
  case True
  then have md: "validate_moment_data s = (Inr (), s)"
     and c1: "truthy_str (content (self s)) \<or> truthy_list (attachments (self s))"
     and c2: "truthy_str (author (self s))" and c3: "truthy_str (moment_type (self s))"
    by (auto simp: validate_moment_data_def throw_def skip_def split: if_splits)
  obtain s' where sd: "set_defaults s = (Inr (), s')" and fr: "db s' = db s"
    "content (self s') = content (self s)" "mentions (self s') = mentions (self s)"
    "location (self s') = location (self s)"
    using set_defaults_frame[of s] by blast
  from assms fr have a': "\<forall>js. mentions (self s') \<noteq> Some (MentionsJson js)" by simp
  define rest where "rest = andthen (validate_content P) (andthen validate_mentions validate_location)"
  have v: "validate P s = rest s'"
    using md sd by (simp add: validate_def andthen_def rest_def)
  define A where "A = ((case content (self s) of Some c \<Rightarrow> length c > 2000 | None \<Rightarrow> False) \<or>
     (case content (self s) of
            Some c \<Rightarrow> list_ex (\<lambda>w. sublist w (py_lower P c)) inappropriate_words
          | None \<Rightarrow> False))"
  define B where "B = (case mentions (self s) of
            Some (MentionRows rows) \<Rightarrow> list_ex (\<lambda>r. \<not> db_exists_user (db s) (mr_user r)) rows
          | _ \<Rightarrow> False)"
  define C where "C = (case location (self s) of None \<Rightarrow> False
       | Some loc \<Rightarrow> loc \<noteq> [] \<and> (\<not> truthy (dict_get loc (lit ''latitude'')) \<or> \<not> truthy (dict_get loc (lit ''longitude''))))"
  have goal: "is_throw (fst (rest s')) = (A \<or> B \<or> C) \<and> (\<not> is_throw (fst (rest s')) \<longrightarrow> fst (rest s') = Inr ())"
  proof (cases A)
    case True
    with validate_content_cases[of P s'] fr have "is_throw (fst (validate_content P s'))"
      by (auto simp: A_def split: option.splits)
    then have "is_throw (fst (rest s'))" unfolding rest_def by (rule andthen_throw)
    with True show ?thesis by simp
  next
    case nA: False
    with validate_content_cases[of P s'] fr have "validate_content P s' = (Inr (), s')"
      by (auto simp: A_def split: option.splits)
    then have r1: "rest s' = andthen validate_mentions validate_location s'"
      unfolding rest_def by (rule andthen_ok)
    show ?thesis
    proof (cases B)
      case True
      with validate_mentions_cases[OF a'] fr have "is_throw (fst (validate_mentions s'))"
        by (auto simp: B_def split: option.splits mentions_field.splits)
      then have "is_throw (fst (rest s'))" unfolding r1 by (rule andthen_throw)
      with True show ?thesis by simp
    next
      case nB: False
      with validate_mentions_cases[OF a'] fr have "validate_mentions s' = (Inr (), s')"
        by (auto simp: B_def split: option.splits mentions_field.splits)
      then have r2: "rest s' = validate_location s'"
        unfolding r1 by (rule andthen_ok)
      from validate_location_cases[of s'] fr nA nB show ?thesis
        unfolding r2 by (auto simp: C_def is_throw_def split: option.splits)
    qed
  qed
  have "listed_failure P s = (A \<or> B)"
    using c1 c2 by (auto simp: listed_failure_def A_def B_def)
  with goal c3 show ?thesis unfolding v C_def by simp
qed

text \<open>
  Claim C1 as stated fails: a document with content, author and type, and a location
  that has a name but no coordinates, meets none of the five listed failures, and
  \<^verbatim>\<open>validate\<close> raises "Invalid location data".
\<close>

theorem validate_counterexample:
  "is_throw (fst (validate test_platform located_state)) \<and> \<not> listed_failure test_platform located_state"
  by code_simp

theorem validate_raises_iff_witness:
  "(\<forall>js. mentions (self plain_state) \<noteq> Some (MentionsJson js)) \<and>
   \<not> is_throw (fst (validate test_platform plain_state)) \<and>
   fst (validate test_platform plain_state) = Inr ()"
proof -
  have h: "\<forall>js. mentions (self plain_state) \<noteq> Some (MentionsJson js)"
    by (simp add: plain_state_def blank_moment_def)
  have n: "\<not> listed_failure test_platform plain_state" by code_simp
  have t: "truthy_str (moment_type (self plain_state))" by code_simp
  have l: "location (self plain_state) = None" by code_simp
  from validate_raises_iff[OF h, of test_platform] n t l show ?thesis using h by simp
qed

section \<open>Properties of the whitelisted methods\<close>


lemmas act_defs = andthen_def modify_db_def modify_self_def save_def when_do_def skip_def
  notify_author_def throw_def


text \<open>
  Claim C2. When a Moment Like row for the moment and the user exists, \<^verbatim>\<open>like_moment\<close>
  raises "You have already liked this moment" and the state, with the likes count and the
  like rows, is as before; otherwise the like rows are the old ones followed by one new
  row for the moment and the user, and the likes count is the old one (None read as 0)
  plus one.
\<close>


theorem like_moment_effect:
  "(like_exists s user \<longrightarrow>
      like_moment user s = (Inl (Throw (lit ''You have already liked this moment'')), s))
   \<and> (\<not> like_exists s user \<longrightarrow>
      tabMomentLike (db (snd (like_moment user s))) =
        tabMomentLike (db s) @ [\<lparr>ml_moment = name (self s), ml_user = user, like_date = now (db s)\<rparr>]
      \<and> likes_count (self (snd (like_moment user s))) =
          Some ((case likes_count (self s) of None \<Rightarrow> 0 | Some n \<Rightarrow> n) + 1))"
  by (auto simp: like_moment_def act_defs or0_def split: option.splits)

theorem like_moment_effect_witness:
  "like_exists liked_state bob
   \<and> like_moment bob liked_state = (Inl (Throw (lit ''You have already liked this moment'')), liked_state)
   \<and> \<not> like_exists plain_state bob
   \<and> length (tabMomentLike (db (snd (like_moment bob plain_state)))) = 1
   \<and> likes_count (self (snd (like_moment bob plain_state))) = Some 1"
proof -
  have a: "like_exists liked_state bob" by code_simp
  have b: "\<not> like_exists plain_state bob" by code_simp
  have c: "tabMomentLike (db plain_state) = []" "likes_count (self plain_state) = None" by code_simp+
  from like_moment_effect[of liked_state bob] like_moment_effect[of plain_state bob] a b c
  show ?thesis by simp
qed

text \<open>
  Claim C3. With a non-empty comment, \<^verbatim>\<open>add_comment\<close> appends one Moment Comment row
  and the comments count is the old one (None read as 0) plus one; with an empty or
  missing comment it raises "Comment content is required" and leaves the state as it was.
\<close>


theorem add_comment_effect:
  "(\<not> truthy_str comment_content \<longrightarrow>
      add_comment user comment_content s = (Inl (Throw (lit ''Comment content is required'')), s))
   \<and> (truthy_str comment_content \<longrightarrow>
      tabMomentComment (db (snd (add_comment user comment_content s))) =
        tabMomentComment (db s) @ [\<lparr>mc_moment = name (self s), mc_user = user,
           comment = the comment_content, comment_date = now (db s)\<rparr>]
      \<and> comments_count (self (snd (add_comment user comment_content s))) =
          Some ((case comments_count (self s) of None \<Rightarrow> 0 | Some n \<Rightarrow> n) + 1))"
  by (auto simp: add_comment_def act_defs or0_def split: option.splits)

theorem add_comment_effect_witness:
  "\<not> truthy_str (Some [])
   \<and> add_comment bob (Some []) plain_state = (Inl (Throw (lit ''Comment content is required'')), plain_state)
   \<and> truthy_str (Some (lit ''nice''))
   \<and> length (tabMomentComment (db (snd (add_comment bob (Some (lit ''nice'')) plain_state)))) = 1
   \<and> comments_count (self (snd (add_comment bob (Some (lit ''nice'')) plain_state))) = Some 1"
proof -
  have a: "\<not> truthy_str (Some [])" by code_simp
  have b: "truthy_str (Some (lit ''nice''))" by code_simp
  have c: "tabMomentComment (db plain_state) = []" "comments_count (self plain_state) = None" by code_simp+
  from add_comment_effect[of "Some []" bob plain_state] add_comment_effect[of "Some (lit ''nice'')" bob plain_state] a b c
  show ?thesis by simp
qed





section \<open>Properties of the engagement score\<close>



section \<open>Properties of the feed\<close>

lemma feed_rows_from:
  assumes "r \<in> set (feed_rows d user dept limit offset)"
  shows "\<exists>m\<in>set (tabMoment d). r = select_columns m \<and> feed_where d user dept m"
proof -
  from assms obtain m where r: "r = select_columns m"
    and m: "m \<in> set (take limit (drop offset (rev (sort_key date_key (filter (feed_where d user dept) (tabMoment d))))))"
    by (auto simp: feed_rows_def)
  from m have "m \<in> set (drop offset (rev (sort_key date_key (filter (feed_where d user dept) (tabMoment d)))))"
    by (rule in_set_takeD)
  then have "m \<in> set (rev (sort_key date_key (filter (feed_where d user dept) (tabMoment d))))"
    by (rule in_set_dropD)
  then have "m \<in> set (tabMoment d) \<and> feed_where d user dept m"
    by simp
  with r show ?thesis by blast
qed

lemma privacy_literals:
  "lit ''Private'' \<noteq> lit ''Public''" "lit ''Private'' \<noteq> lit ''Friends''"
  "lit ''Private'' \<noteq> lit ''Department''"
  by (simp_all add: lit_def)

text \<open>
  Claim C9. Every row \<^verbatim>\<open>get_moment_feed\<close> returns is a row of the Moment table whose
  privacy is "Public", or "Friends" with the requester following its author, or
  "Department" with its author an employee of the department of the requester; a row
  whose privacy is "Private" is never returned, whoever asks.
\<close>

theorem feed_visible:
  assumes "get_moment_feed user limit offset s = (Inr rows, s')" and "r \<in> set rows"
  shows "(\<exists>m\<in>set (tabMoment (db s)). r = select_columns m)
     \<and> (fr_privacy r = Some (lit ''Public'')
        \<or> (fr_privacy r = Some (lit ''Friends'') \<and> fr_author r \<noteq> None
            \<and> (\<exists>f\<in>set (tabUserFollow (db s)). follower f = Some user \<and> following f = fr_author r))
        \<or> (fr_privacy r = Some (lit ''Department'') \<and> fr_author r \<noteq> None
            \<and> (\<exists>e1\<in>set (tabEmployee (db s)). \<exists>e2\<in>set (tabEmployee (db s)).
                  emp_user e1 = Some user \<and> department e1 \<noteq> None
                  \<and> emp_user e2 = fr_author r \<and> department e2 = department e1)))
     \<and> fr_privacy r \<noteq> Some (lit ''Private'')"
proof -
  define ds where "ds = map department (filter (\<lambda>e. emp_user e = Some user) (tabEmployee (db s)))"
  from assms(1) obtain dept where rows: "rows = feed_rows (db s) user dept limit offset"
    and dept: "dept = None \<or> ds = [dept]"
    unfolding get_moment_feed_def ds_def[symmetric]
    by (auto simp: raise_def split: list.splits)
  from assms(2) rows obtain m where m: "m \<in> set (tabMoment (db s))" "r = select_columns m"
    and w: "feed_where (db s) user dept m"
    using feed_rows_from by blast
  have sel: "fr_privacy r = privacy m" "fr_author r = author m"
    using m(2) by (simp_all add: select_columns_def)
  have dep: "\<exists>e1\<in>set (tabEmployee (db s)). emp_user e1 = Some user \<and> department e1 = dept"
    if "dept \<noteq> None"
  proof -
    from that dept have "dept \<in> set ds" by auto
    then show ?thesis by (auto simp: ds_def)
  qed
  from w consider (pub) "privacy m = Some (lit ''Public'')"
    | (fri) "privacy m = Some (lit ''Friends'')" "author m \<noteq> None"
        "list_ex (\<lambda>f. follower f = Some user \<and> following f = author m) (tabUserFollow (db s))"
    | (dpt) "privacy m = Some (lit ''Department'')" "author m \<noteq> None" "dept \<noteq> None"
        "list_ex (\<lambda>e. department e = dept \<and> emp_user e = author m) (tabEmployee (db s))"
    by (auto simp: feed_where_def)
  then show ?thesis
  proof cases
    case pub
    with m sel show ?thesis using privacy_literals by auto
  next
    case fri
    with m sel show ?thesis using privacy_literals by (auto simp: list_ex_iff)
  next
    case dpt
    from dep[OF dpt(3)] obtain e1 where e1: "e1 \<in> set (tabEmployee (db s))"
      "emp_user e1 = Some user" "department e1 = dept" by blast
    from dpt(4) obtain e2 where e2: "e2 \<in> set (tabEmployee (db s))"
      "department e2 = dept" "emp_user e2 = author m" by (auto simp: list_ex_iff)
    have "\<exists>e1\<in>set (tabEmployee (db s)). \<exists>e2\<in>set (tabEmployee (db s)).
                  emp_user e1 = Some user \<and> department e1 \<noteq> None
                  \<and> emp_user e2 = fr_author r \<and> department e2 = department e1"
      using e1 e2 dpt(3) sel by auto
    with m sel dpt show ?thesis using privacy_literals by auto
  qed
qed

theorem feed_visible_witness:
  "get_moment_feed ann 20 0 feed_state =
      (Inr [select_columns (blank_moment\<lparr>name := lit ''MOM-3'', author := Some ann,
              privacy := Some (lit ''Public''), posted_date := Some 7\<rparr>)], feed_state)
   \<and> fr_privacy (select_columns (blank_moment\<lparr>name := lit ''MOM-3'', author := Some ann,
              privacy := Some (lit ''Public''), posted_date := Some 7\<rparr>)) \<noteq> Some (lit ''Private'')"
proof -
  let ?r = "select_columns (blank_moment\<lparr>name := lit ''MOM-3'', author := Some ann,
              privacy := Some (lit ''Public''), posted_date := Some 7\<rparr>)"
  have a: "get_moment_feed ann 20 0 feed_state = (Inr [?r], feed_state)"
    by code_simp
  have b: "?r \<in> set [?r]" by simp
  from feed_visible[OF a b] a show ?thesis by simp
qed

section \<open>Properties of the content analysis\<close>

lemma count_filter_card:
  "distinct ws \<Longrightarrow> length (filter p ws) = card {w \<in> set ws. p w}"
  by (simp add: distinct_length_filter Collect_conj_eq Int_commute)

lemma distinct_sentiment_words: "distinct positive_words" "distinct negative_words"
  by (simp_all add: positive_words_def negative_words_def lit_def)

text \<open>
  Claim C5, as amended. \<^verbatim>\<open>analyze_sentiment\<close> returns "neutral" for empty content;
  otherwise it counts the positive and the negative words that occur as substrings of
  the lower-cased content and returns "positive" when there are more positive ones,
  "negative" when there are more negative ones, and "neutral" when the counts are equal.
\<close>

theorem analyze_sentiment_substrings:
  "analyze_sentiment P m =
     (case content m of
        None \<Rightarrow> lit ''neutral''
      | Some c \<Rightarrow>
          if c = [] then lit ''neutral''
          else if card {w \<in> set negative_words. sublist w (py_lower P c)}
                    < card {w \<in> set positive_words. sublist w (py_lower P c)}
          then lit ''positive''
          else if card {w \<in> set positive_words. sublist w (py_lower P c)}
                    < card {w \<in> set negative_words. sublist w (py_lower P c)}
          then lit ''negative''
          else lit ''neutral'')"
  by (simp add: analyze_sentiment_def truthy_str_def Let_def
      count_filter_card[OF distinct_sentiment_words(1)] count_filter_card[OF distinct_sentiment_words(2)]
      split: option.splits)

theorem analyze_sentiment_substrings_witness:
  "analyze_sentiment test_platform badge_moment = lit ''negative''
   \<and> card {w \<in> set positive_words. sublist w (py_lower test_platform (lit ''badge''))}
       < card {w \<in> set negative_words. sublist w (py_lower test_platform (lit ''badge''))}"
proof -
  have a: "analyze_sentiment test_platform badge_moment = lit ''negative''" by code_simp
  have b: "content badge_moment = Some (lit ''badge'')" by (simp add: badge_moment_def)
  have c: "lit ''badge'' \<noteq> []" "lit ''negative'' \<noteq> lit ''positive''" "lit ''negative'' \<noteq> lit ''neutral''"
    by (simp_all add: lit_def)
  from analyze_sentiment_substrings[of test_platform badge_moment] a b c
  show ?thesis by (simp split: if_splits)
qed

text \<open>
  Claim C5 as stated fails: in the content "badge" no listed word occurs as a word, so
  the counts of the specification are equal, yet the source finds "bad" inside it and
  returns "negative".
\<close>

theorem analyze_sentiment_counterexample:
  "analyze_sentiment test_platform badge_moment = lit ''negative''
   \<and> sentiment_by_words test_platform badge_moment = lit ''neutral''"
  by code_simp

section \<open>Properties of the rewriting passes and of \<^verbatim>\<open>before_save\<close>\<close>

lemma re_sub_nonempty:
  assumes "\<And>m. repl m \<noteq> []" and "s \<noteq> []"
  shows "re_sub mt repl s \<noteq> []"
proof (cases s)
  case Nil
  with assms(2) show ?thesis by simp
next
  case (Cons c t)
  then show ?thesis
    using assms(1) by (auto split: option.splits)
qed

lemma fold_replace_nonempty:
  "c \<noteq> [] \<Longrightarrow> \<forall>ce\<in>set xs. snd ce \<noteq> [] \<Longrightarrow>
   fold (\<lambda>(code, emoji) acc. str_replace code emoji acc) xs c \<noteq> []"
proof (induction xs arbitrary: c)
  case Nil
  then show ?case by simp
next
  case (Cons x xs)
  obtain code emoji where x: "x = (code, emoji)" by (cases x)
  with Cons.prems have "emoji \<noteq> []" by simp
  then have "str_replace code emoji c \<noteq> []"
    unfolding str_replace_def using Cons.prems(1) by (intro re_sub_nonempty) auto
  with Cons x show ?case by simp
qed

lemma process_text_nonempty:
  assumes "c \<noteq> []"
  shows "process_text P c \<noteq> []"
proof -
  have "process_emojis c \<noteq> []"
    unfolding process_emojis_def using assms
    by (rule fold_replace_nonempty) (simp add: emoji_map_def)
  then have "process_links (process_emojis c) \<noteq> []"
    unfolding process_links_def by (intro re_sub_nonempty) (simp_all add: link_repl_def dq_def)
  then have "process_hashtags P (process_links (process_emojis c)) \<noteq> []"
    unfolding process_hashtags_def by (intro re_sub_nonempty) (simp_all add: hashtag_repl_def dq_def)
  then show ?thesis
    unfolding process_text_def process_mentions_def
    by (intro re_sub_nonempty) (simp_all add: mention_repl_def dq_def)
qed

lemma for_each_frame:
  assumes "\<And>x s. fst (f x s) = Inr () \<and> self (snd (f x s)) = self s"
  shows "fst (for_each xs f s) = Inr () \<and> self (snd (for_each xs f s)) = self s"
proof (induction xs arbitrary: s)
  case Nil
  then show ?case by (simp add: skip_def)
next
  case (Cons x xs)
  obtain s1 where s1: "f x s = (Inr (), s1)" "self s1 = self s"
    using assms[of x s] by (cases "f x s") auto
  with Cons[of s1] show ?case by (simp add: andthen_def)
qed

lemma extract_hashtags_effect:
  assumes "content (self s) = Some c" and "c \<noteq> []"
  shows "\<exists>s1. extract_hashtags P s = (Inr (), s1)
     \<and> self s1 = (self s)\<lparr>hashtags :=
          Some (json_dumps P (JList (map JStr (map tl (re_finditer (tag_match P 35) c)))))\<rparr>"
proof -
  let ?hs = "map tl (re_finditer (tag_match P 35) c)"
  let ?s0 = "s\<lparr>self := (self s)\<lparr>hashtags := Some (json_dumps P (JList (map JStr ?hs)))\<rparr>\<rparr>"
  have fr: "fst (for_each ?hs create_hashtag_record ?s0) = Inr ()
      \<and> self (snd (for_each ?hs create_hashtag_record ?s0)) = self ?s0"
    by (rule for_each_frame) (simp add: create_hashtag_record_def Let_def)
  have "extract_hashtags P s = for_each ?hs create_hashtag_record ?s0"
    using assms by (simp add: extract_hashtags_def truthy_str_def Let_def andthen_def modify_self_def
        del: json_dumps.simps)
  with fr show ?thesis
    by (cases "for_each ?hs create_hashtag_record ?s0") auto
qed

lemma extract_mentions_effect:
  assumes "content (self s) = Some c" and "c \<noteq> []"
  shows "\<exists>s1. extract_mentions P s = (Inr (), s1)
     \<and> self s1 = (self s)\<lparr>mentions :=
          Some (MentionsJson (json_dumps P (JList (map JStr (map tl (re_finditer (tag_match P 64) c))))))\<rparr>"
proof -
  let ?ms = "map tl (re_finditer (tag_match P 64) c)"
  let ?s0 = "s\<lparr>self := (self s)\<lparr>mentions := Some (MentionsJson (json_dumps P (JList (map JStr ?ms))))\<rparr>\<rparr>"
  have fr: "fst (for_each ?ms create_mention_record ?s0) = Inr ()
      \<and> self (snd (for_each ?ms create_mention_record ?s0)) = self ?s0"
    by (rule for_each_frame) (simp add: create_mention_record_def Let_def)
  have "extract_mentions P s = for_each ?ms create_mention_record ?s0"
    using assms by (simp add: extract_mentions_def truthy_str_def Let_def andthen_def modify_self_def
        del: json_dumps.simps)
  with fr show ?thesis
    by (cases "for_each ?ms create_mention_record ?s0") auto
qed

lemma generate_preview_frame:
  "content (self (snd (generate_preview P s))) = content (self s)
   \<and> hashtags (self (snd (generate_preview P s))) = hashtags (self s)"
  by (simp add: generate_preview_def Let_def raise_def modify_self_def split: option.splits sum.splits)

lemma before_save_fields:
  assumes "truthy_str (content (self s))"
  shows "content (self (snd (before_save P s))) = Some (process_text P (the (content (self s))))
     \<and> hashtags (self (snd (before_save P s))) =
         Some (json_dumps P (JList (map JStr (map tl
           (re_finditer (tag_match P 35) (process_text P (the (content (self s)))))))))"
proof -
  from assms obtain c where c: "content (self s) = Some c" "c \<noteq> []"
    by (auto simp: truthy_str_def split: option.splits)
  define c' where "c' = process_text P c"
  have c': "c' \<noteq> []" unfolding c'_def using c(2) by (rule process_text_nonempty)
  define s1 where "s1 = s\<lparr>self := (self s)\<lparr>content := Some c'\<rparr>\<rparr>"
  have p1: "process_content P s = (Inr (), s1)"
    using c by (simp add: process_content_def truthy_str_def modify_self_def s1_def c'_def)
  have s1c: "content (self s1) = Some c'" by (simp add: s1_def)
  from extract_hashtags_effect[OF s1c c', of P] obtain s2 where
    p2: "extract_hashtags P s1 = (Inr (), s2)"
    and s2: "self s2 = (self s1)\<lparr>hashtags :=
          Some (json_dumps P (JList (map JStr (map tl (re_finditer (tag_match P 35) c')))))\<rparr>"
    by blast
  have s2c: "content (self s2) = Some c'" using s2 s1c by simp
  from extract_mentions_effect[OF s2c c', of P] obtain s3 where
    p3: "extract_mentions P s2 = (Inr (), s3)"
    and s3: "self s3 = (self s2)\<lparr>mentions :=
          Some (MentionsJson (json_dumps P (JList (map JStr (map tl (re_finditer (tag_match P 64) c'))))))\<rparr>"
    by blast
  obtain s4 where p4: "set_privacy_settings s3 = (Inr (), s4)"
    and s4: "content (self s4) = content (self s3)" "hashtags (self s4) = hashtags (self s3)"
    by (simp add: set_privacy_settings_def modify_self_def)
  have "before_save P s = generate_preview P s4"
    using p1 p2 p3 p4 by (simp add: before_save_def andthen_def)
  then have "content (self (snd (before_save P s))) = content (self s4)"
    "hashtags (self (snd (before_save P s))) = hashtags (self s4)"
    using generate_preview_frame[of P s4] by simp_all
  with s4 s3 s2 s1c c show ?thesis by (simp add: c'_def)
qed

text \<open>
  Claim C4. For a document with non-empty content, \<^verbatim>\<open>before_save\<close> leaves as content
  the text rewritten by the four passes, and as \<^verbatim>\<open>hashtags\<close> the JSON encoding of the
  list of the matches of \<^verbatim>\<open>#(\w+)\<close> in that rewritten text, in their order.
\<close>

theorem before_save_hashtags:
  assumes "truthy_str (content (self s))"
  shows "content (self (snd (before_save P s))) = Some (process_text P (the (content (self s))))
     \<and> hashtags (self (snd (before_save P s))) =
         Some (json_dumps P (JList (map JStr (map tl
           (re_finditer (tag_match P 35) (process_text P (the (content (self s)))))))))"
  using before_save_fields[OF assms] .

theorem before_save_hashtags_witness:
  "truthy_str (content (self tagged_state))
   \<and> hashtags (self (snd (before_save test_platform tagged_state))) = Some (lit ''['' @ dq @ lit ''a'' @ dq @ lit '']'')"
proof -
  have a: "truthy_str (content (self tagged_state))" by code_simp
  have c: "the (content (self tagged_state)) = lit ''#a''" by code_simp
  have e: "process_emojis (lit ''#a'') = lit ''#a''"
    by (simp add: process_emojis_def emoji_map_def str_replace_def literal_match_def lit_def)
  have l: "process_links (lit ''#a'') = lit ''#a''" by code_simp
  have h: "process_hashtags test_platform (lit ''#a'') = hashtag_repl (lit ''#a'')" by code_simp
  have m: "process_mentions test_platform (hashtag_repl (lit ''#a'')) = hashtag_repl (lit ''#a'')"
    by code_simp
  have f: "map tl (re_finditer (tag_match test_platform 35) (hashtag_repl (lit ''#a''))) = [lit ''a'']"
    by code_simp
  have j: "json_dumps test_platform (JList [JStr (lit ''a'')]) = lit ''['' @ dq @ lit ''a'' @ dq @ lit '']''"
    by code_simp
  from before_save_hashtags[OF a, of test_platform] a
  show ?thesis by (simp add: c process_text_def e l h m f j del: json_dumps.simps)
qed

section \<open>Rewriting introduces no flagged keyword\<close>































end
